theory Spec2Isabelle
  imports Complex_Main "HOL-Library.Word"
begin

section \<open>Data model\<close>

text \<open>
  \<^verbatim>\<open>sever.go\<close> and \<^verbatim>\<open>client/client.go\<close> declare the same type \<^verbatim>\<open>USDToBRLRate\<close>:
  a struct whose only field \<^verbatim>\<open>USDBRL\<close> is an anonymous struct of eleven strings.
  A Go string is a sequence of bytes, here a \<^typ>\<open>string\<close>.
\<close>

record USDBRL_t =
  Code :: string
  Codein :: string
  Name :: string
  High :: string
  Low :: string
  VarBid :: string
  PctChange :: string
  Bid :: string
  Ask :: string
  Timestamp :: string
  CreateDate :: string

record USDToBRLRate =
  USDBRL :: USDBRL_t

text \<open>The zero value of \<^verbatim>\<open>var rate USDToBRLRate\<close>: every string empty.\<close>

definition zero_USDBRL :: USDBRL_t where
  "zero_USDBRL =
     \<lparr>Code = [], Codein = [], Name = [], High = [], Low = [], VarBid = [],
      PctChange = [], Bid = [], Ask = [], Timestamp = [], CreateDate = []\<rparr>"

definition zero_rate :: USDToBRLRate where
  "zero_rate = \<lparr>USDBRL = zero_USDBRL\<rparr>"

text \<open>
  \<^verbatim>\<open>USDToBRLRateDB\<close>, the record handed to the database. \<^verbatim>\<open>float64\<close> is the type
  parameter \<open>'f\<close> (only its zero is used by the code), \<^verbatim>\<open>int64\<close> a 64-bit word read
  with \<^const>\<open>sint\<close>, and \<^verbatim>\<open>time.Time\<close> is \<open>None\<close> for its zero value.
\<close>

record 'f USDToBRLRateDB =
  db_ID :: nat
  db_Code :: string
  db_Bid :: 'f
  db_Ask :: 'f
  db_Timestamp :: "64 word"
  db_CreatedAt :: "nat option"

text \<open>
  Go's \<^verbatim>\<open>error\<close> values. A function returning \<^verbatim>\<open>error\<close> returns a
  \<open>go_error option\<close>, \<open>None\<close> being \<^verbatim>\<open>nil\<close>; a pointer \<^verbatim>\<open>*USDToBRLRate\<close> is a
  \<open>USDToBRLRate option\<close> in the same way.
\<close>

datatype go_error =
    ErrNewRequest
  | ErrTransport
  | ErrDeadlineExceeded
  | ErrBodyRead
  | ErrJSONSyntax
  | ErrUnmarshalType
  | ErrSyntax
  | ErrRange
  | ErrStore
  | ErrFileCreate
  | ErrFileWrite

section \<open>The library calls: \<^verbatim>\<open>encoding/json\<close>\<close>

text \<open>
  Both programs read and write JSON only through \<^verbatim>\<open>json.Unmarshal\<close> and
  \<^verbatim>\<open>json.Encoder.Encode\<close> of the Go standard library. The model works on JSON values:
  a body is the JSON value its bytes denote, or \<open>None\<close> when the bytes are not one
  valid JSON text (the empty body included). Lexical matters (white space, escapes,
  the new line \<^verbatim>\<open>Encode\<close> appends) are below this level.
\<close>

datatype json =
    JNull
  | JBool bool
  | JNumber string
  | JString string
  | JArray "json list"
  | JObject "(string \<times> json) list"

text \<open>
  The \<^verbatim>\<open>json:"..."\<close> tags of the inner struct, in declaration order, and the
  assignment to the field a tag names.
\<close>

definition USDBRL_tags :: "string list" where
  "USDBRL_tags =
     [''code'', ''codein'', ''name'', ''high'', ''low'', ''varBid'', ''pctChange'',
      ''bid'', ''ask'', ''timestamp'', ''create_date'']"

definition set_tagged :: "string \<Rightarrow> string \<Rightarrow> USDBRL_t \<Rightarrow> USDBRL_t" where
  "set_tagged tag s r =
     (if tag = ''code'' then r\<lparr>Code := s\<rparr>
      else if tag = ''codein'' then r\<lparr>Codein := s\<rparr>
      else if tag = ''name'' then r\<lparr>Name := s\<rparr>
      else if tag = ''high'' then r\<lparr>High := s\<rparr>
      else if tag = ''low'' then r\<lparr>Low := s\<rparr>
      else if tag = ''varBid'' then r\<lparr>VarBid := s\<rparr>
      else if tag = ''pctChange'' then r\<lparr>PctChange := s\<rparr>
      else if tag = ''bid'' then r\<lparr>Bid := s\<rparr>
      else if tag = ''ask'' then r\<lparr>Ask := s\<rparr>
      else if tag = ''timestamp'' then r\<lparr>Timestamp := s\<rparr>
      else if tag = ''create_date'' then r\<lparr>CreateDate := s\<rparr>
      else r)"

text \<open>
  \<^verbatim>\<open>json.Unmarshal\<close> looks an object key up by its exact name first, then by its
  folded name. Folding maps the ASCII letters to upper case; the only other runes that
  fold to an ASCII letter are U+017F (bytes C5 BF, to S) and U+212A (bytes E2 84 AA, to K).
\<close>

definition upper_byte :: "char \<Rightarrow> char" where
  "upper_byte c =
     (let n = (of_char c :: nat) in if 97 \<le> n \<and> n \<le> 122 then char_of (n - 32) else c)"

fun foldName :: "string \<Rightarrow> string" where
  "foldName (a # b # c # cs) =
     (if (of_char a :: nat) = 226 \<and> (of_char b :: nat) = 132 \<and> (of_char c :: nat) = 170
      then CHR ''K'' # foldName cs
      else if (of_char a :: nat) = 197 \<and> (of_char b :: nat) = 191
      then CHR ''S'' # foldName (c # cs)
      else upper_byte a # foldName (b # c # cs))"
| "foldName [a, b] =
     (if (of_char a :: nat) = 197 \<and> (of_char b :: nat) = 191 then [CHR ''S'']
      else [upper_byte a, upper_byte b])"
| "foldName [a] = [upper_byte a]"
| "foldName [] = []"

definition find_field :: "string list \<Rightarrow> string \<Rightarrow> string option" where
  "find_field tags key =
     (case List.find (\<lambda>t. t = key) tags of
        Some t \<Rightarrow> Some t
      | None \<Rightarrow> List.find (\<lambda>t. foldName t = foldName key) tags)"

text \<open>
  Storing a JSON value into a string field: a string is stored, \<^verbatim>\<open>null\<close> leaves the
  field as it is, anything else is an \<^verbatim>\<open>UnmarshalTypeError\<close>. The decoder saves the
  first such error, goes on decoding and returns the saved error at the end.
\<close>

definition save_error :: "go_error \<Rightarrow> go_error option \<Rightarrow> go_error option" where
  "save_error e saved = (case saved of None \<Rightarrow> Some e | Some e0 \<Rightarrow> Some e0)"

fun unmarshal_members ::
  "(string \<times> json) list \<Rightarrow> USDBRL_t \<times> go_error option \<Rightarrow> USDBRL_t \<times> go_error option"
where
  "unmarshal_members [] acc = acc"
| "unmarshal_members ((k, v) # kvs) (r, saved) =
     unmarshal_members kvs
       (case find_field USDBRL_tags k of
          None \<Rightarrow> (r, saved)
        | Some tag \<Rightarrow>
            (case v of
               JString s \<Rightarrow> (set_tagged tag s r, saved)
             | JNull \<Rightarrow> (r, saved)
             | _ \<Rightarrow> (r, save_error ErrUnmarshalType saved)))"

definition unmarshal_USDBRL ::
  "json \<Rightarrow> USDBRL_t \<times> go_error option \<Rightarrow> USDBRL_t \<times> go_error option"
where
  "unmarshal_USDBRL v acc =
     (case v of
        JObject kvs \<Rightarrow> unmarshal_members kvs acc
      | JNull \<Rightarrow> acc
      | _ \<Rightarrow> (fst acc, save_error ErrUnmarshalType (snd acc)))"

fun unmarshal_outer ::
  "(string \<times> json) list \<Rightarrow> USDBRL_t \<times> go_error option \<Rightarrow> USDBRL_t \<times> go_error option"
where
  "unmarshal_outer [] acc = acc"
| "unmarshal_outer ((k, v) # kvs) acc =
     unmarshal_outer kvs
       (case find_field [''USDBRL''] k of
          None \<Rightarrow> acc
        | Some tag \<Rightarrow> unmarshal_USDBRL v acc)"

text \<open>
  \<^verbatim>\<open>json.Unmarshal(body, &rate)\<close>: the updated \<^verbatim>\<open>rate\<close> and the returned error.
  Invalid JSON is rejected before anything is stored.
\<close>

definition json_Unmarshal :: "json option \<Rightarrow> USDToBRLRate \<Rightarrow> USDToBRLRate \<times> go_error option" where
  "json_Unmarshal body rate =
     (case body of
        None \<Rightarrow> (rate, Some ErrJSONSyntax)
      | Some JNull \<Rightarrow> (rate, None)
      | Some (JObject kvs) \<Rightarrow>
          (case unmarshal_outer kvs (USDBRL rate, None) of
             (r, saved) \<Rightarrow> (rate\<lparr>USDBRL := r\<rparr>, saved))
      | Some _ \<Rightarrow> (rate, Some ErrUnmarshalType))"

text \<open>
  \<^verbatim>\<open>json.NewEncoder(w).Encode(rate)\<close> of a \<^verbatim>\<open>*USDToBRLRate\<close>: a nil pointer is
  \<^verbatim>\<open>null\<close>, otherwise the struct's fields in declaration order under their tags.
\<close>

definition marshal_USDBRL :: "USDBRL_t \<Rightarrow> json" where
  "marshal_USDBRL r =
     JObject
       [(''code'', JString (Code r)), (''codein'', JString (Codein r)),
        (''name'', JString (Name r)), (''high'', JString (High r)),
        (''low'', JString (Low r)), (''varBid'', JString (VarBid r)),
        (''pctChange'', JString (PctChange r)), (''bid'', JString (Bid r)),
        (''ask'', JString (Ask r)), (''timestamp'', JString (Timestamp r)),
        (''create_date'', JString (CreateDate r))]"

definition json_Marshal :: "USDToBRLRate option \<Rightarrow> json" where
  "json_Marshal p =
     (case p of
        None \<Rightarrow> JNull
      | Some rate \<Rightarrow> JObject [(''USDBRL'', marshal_USDBRL (USDBRL rate))])"

section \<open>The service: \<^verbatim>\<open>sever.go\<close>\<close>

text \<open>
  What one request meets outside the program: the results of the library calls it makes.
  \<^item> \<open>new_request_err\<close>: the error of \<^verbatim>\<open>http.NewRequestWithContext\<close>;
  \<^item> \<open>do_err\<close>: the error of \<^verbatim>\<open>http.DefaultClient.Do\<close> (transport failure, or the
    200ms deadline);
  \<^item> \<open>resp_status\<close>, \<open>read_err\<close>, \<open>resp_body\<close>: the upstream response's status code,
    the error of \<^verbatim>\<open>io.ReadAll\<close> and the body read;
  \<^item> \<open>select_case\<close>: the case the handler's \<^verbatim>\<open>select\<close> statement takes;
  \<^item> \<open>strconv_ParseFloat\<close>: \<^verbatim>\<open>strconv.ParseFloat(s, 64)\<close>;
  \<^item> \<open>db_Create\<close>: the \<^verbatim>\<open>Error\<close> of \<^verbatim>\<open>db.Create(&rateDB)\<close>.
\<close>

datatype select_outcome = TimerFired | CtxDone

record 'f world =
  new_request_err :: "go_error option"
  do_err :: "go_error option"
  resp_status :: nat
  read_err :: "go_error option"
  resp_body :: "json option"
  select_case :: select_outcome
  strconv_ParseFloat :: "string \<Rightarrow> go_error + 'f"
  db_Create :: "'f USDToBRLRateDB \<Rightarrow> go_error option"

text \<open>
  \<^verbatim>\<open>GetExchangeRate\<close> returns the pair \<^verbatim>\<open>(*USDToBRLRate, error)\<close>. The variable
  \<^verbatim>\<open>err\<close> tested after \<^verbatim>\<open>Do\<close> is the one returned by the status check.
\<close>

definition GetExchangeRate :: "'f world \<Rightarrow> USDToBRLRate option \<times> go_error option" where
  "GetExchangeRate env =
     (case new_request_err env of
        Some e \<Rightarrow> (None, Some e)
      | None \<Rightarrow>
          (let err = do_err env in
           if err \<noteq> None then (None, err)
           else if resp_status env \<noteq> 200 then (None, err)
           else
             (case read_err env of
                Some e \<Rightarrow> (None, Some e)
              | None \<Rightarrow>
                  (case json_Unmarshal (resp_body env) zero_rate of
                     (rate, Some e) \<Rightarrow> (None, Some e)
                   | (rate, None) \<Rightarrow> (Some rate, None)))))"

subsection \<open>\<^verbatim>\<open>strconv.ParseInt(s, 10, 64)\<close>\<close>

text \<open>
  The library's loop over the bytes of \<^verbatim>\<open>s\<close> in base 10 with 64 bits: a byte that is
  not a digit is a syntax error, a value beyond \<open>2 ^ 64 - 1\<close> a range error, found in
  the order the bytes come. Each function returns the pair \<^verbatim>\<open>(value, err)\<close>.
\<close>

definition maxUint64 :: nat where
  "maxUint64 = 2 ^ 64 - 1"

fun ParseUint_loop :: "string \<Rightarrow> nat \<Rightarrow> nat \<times> go_error option" where
  "ParseUint_loop [] n = (n, None)"
| "ParseUint_loop (c # cs) n =
     (let k = (of_char c :: nat) in
      if k < 48 \<or> 57 < k then (0, Some ErrSyntax)
      else if maxUint64 div 10 + 1 \<le> n then (maxUint64, Some ErrRange)
      else
        (let n1 = n * 10 + (k - 48) in
         if maxUint64 < n1 then (maxUint64, Some ErrRange) else ParseUint_loop cs n1))"

definition ParseUint :: "string \<Rightarrow> nat \<times> go_error option" where
  "ParseUint s = (if s = [] then (0, Some ErrSyntax) else ParseUint_loop s 0)"

definition ParseInt :: "string \<Rightarrow> 64 word \<times> go_error option" where
  "ParseInt s0 =
     (case s0 of
        [] \<Rightarrow> (0, Some ErrSyntax)
      | c # cs \<Rightarrow>
          (let neg = (c = CHR ''-'');
               s = (if c = CHR ''+'' \<or> c = CHR ''-'' then cs else s0);
               cutoff = (2 ^ 63 :: nat)
           in case ParseUint s of
                (un, Some ErrSyntax) \<Rightarrow> (0, Some ErrSyntax)
              | (un, err) \<Rightarrow>
                  if \<not> neg \<and> cutoff \<le> un then (of_nat (cutoff - 1), Some ErrRange)
                  else if neg \<and> cutoff < un then (- of_nat cutoff, Some ErrRange)
                  else (if neg then - of_nat un else of_nat un, None)))"

subsection \<open>The handler's state\<close>

text \<open>
  The log lines the service prints, by the statement that prints them, with the values
  formatted into them.
\<close>

datatype log_line =
    LogFetchError go_error
  | LogSaved
  | LogTimeout
  | LogParseInt string go_error
  | LogParseFloat string go_error

text \<open>What the handler does that is visible outside it, in program order.\<close>

datatype 'f event =
    EvFetch
  | EvSelect select_outcome
  | EvSaveCall
  | EvCreate "'f USDToBRLRateDB"
  | EvLog log_line
  | EvHeaderSet string string
  | EvWriteHeader nat
  | EvEncode json

text \<open>
  The \<^verbatim>\<open>http.ResponseWriter\<close> of one request together with the trace of events:
  the header map, the status code once written, the JSON documents written to the
  body, and whether the handler panicked.
\<close>

record 'f conn =
  w_header :: "string \<rightharpoonup> string"
  w_status :: "nat option"
  w_body :: "json list"
  trace :: "'f event list"
  panicked :: bool

definition new_conn :: "'f conn" where
  "new_conn =
     \<lparr>w_header = Map.empty, w_status = None, w_body = [], trace = [], panicked = False\<rparr>"

definition event :: "'f event \<Rightarrow> 'f conn \<Rightarrow> 'f conn" where
  "event e w = w\<lparr>trace := trace w @ [e]\<rparr>"

definition log_Println :: "log_line \<Rightarrow> 'f conn \<Rightarrow> 'f conn" where
  "log_Println l w = event (EvLog l) w"

definition Header_Set :: "string \<Rightarrow> string \<Rightarrow> 'f conn \<Rightarrow> 'f conn" where
  "Header_Set k v w = event (EvHeaderSet k v) (w\<lparr>w_header := (w_header w)(k \<mapsto> v)\<rparr>)"

text \<open>Only the first \<^verbatim>\<open>WriteHeader\<close> sets the status; a body written before any sets 200.\<close>

definition WriteHeader :: "nat \<Rightarrow> 'f conn \<Rightarrow> 'f conn" where
  "WriteHeader c w =
     event (EvWriteHeader c)
       (w\<lparr>w_status := (case w_status w of None \<Rightarrow> Some c | Some c0 \<Rightarrow> Some c0)\<rparr>)"

definition Encode :: "json \<Rightarrow> 'f conn \<Rightarrow> 'f conn" where
  "Encode v w =
     event (EvEncode v)
       (w\<lparr>w_status := (case w_status w of None \<Rightarrow> Some 200 | Some c0 \<Rightarrow> Some c0),
          w_body := w_body w @ [v]\<rparr>)"

subsection \<open>Persistence\<close>

definition parseTimestamp :: "string \<Rightarrow> 'f conn \<Rightarrow> 64 word \<times> 'f conn" where
  "parseTimestamp s w =
     (case ParseInt s of
        (i, Some err) \<Rightarrow> (0, log_Println (LogParseInt s err) w)
      | (i, None) \<Rightarrow> (i, w))"

definition parseFloat :: "('f::zero) world \<Rightarrow> string \<Rightarrow> 'f conn \<Rightarrow> 'f \<times> 'f conn" where
  "parseFloat env s w =
     (case strconv_ParseFloat env s of
        Inl err \<Rightarrow> (0, log_Println (LogParseFloat s err) w)
      | Inr f \<Rightarrow> (f, w))"

text \<open>
  \<^verbatim>\<open>SaveExchangeRate(rate)\<close>: \<open>Inl\<close> is the panic of dereferencing a nil \<^verbatim>\<open>rate\<close>
  (the first field of the literal reads \<^verbatim>\<open>rate.USDBRL.Code\<close>), \<open>Inr\<close> the returned
  error. \<^verbatim>\<open>ID\<close> and \<^verbatim>\<open>CreatedAt\<close> are not set by the literal.
\<close>

definition SaveExchangeRate ::
  "('f::zero) world \<Rightarrow> USDToBRLRate option \<Rightarrow> 'f conn \<Rightarrow> 'f conn + go_error option \<times> 'f conn"
where
  "SaveExchangeRate env rate w =
     (let w0 = event EvSaveCall w in
      case rate of
        None \<Rightarrow> Inl w0
      | Some r \<Rightarrow>
          (let code = Code (USDBRL r);
               (bid, w1) = parseFloat env (Bid (USDBRL r)) w0;
               (ask, w2) = parseFloat env (Ask (USDBRL r)) w1;
               (ts, w3) = parseTimestamp (Timestamp (USDBRL r)) w2;
               rateDB = \<lparr>db_ID = 0, db_Code = code, db_Bid = bid, db_Ask = ask,
                         db_Timestamp = ts, db_CreatedAt = None\<rparr>
           in Inr (db_Create env rateDB, event (EvCreate rateDB) w3)))"

subsection \<open>The handler\<close>

text \<open>
  \<^verbatim>\<open>GetExchangeRateHandler(w, r)\<close> with \<^verbatim>\<open>r.URL.Path\<close> as \<open>path\<close>. The
  \<^verbatim>\<open>select\<close> takes the case \<open>select_case env\<close>: the 5ms timer, which calls
  \<^verbatim>\<open>SaveExchangeRate\<close>, or \<^verbatim>\<open>ctx.Done()\<close>. A panic leaves the handler at once.
\<close>

definition GetExchangeRateHandler :: "('f::zero) world \<Rightarrow> string \<Rightarrow> 'f conn \<Rightarrow> 'f conn" where
  "GetExchangeRateHandler env path w =
     (if path \<noteq> ''/cotacao'' then WriteHeader 404 w
      else
        (case GetExchangeRate env of
           (rate, Some err) \<Rightarrow>
             WriteHeader 500 (log_Println (LogFetchError err) (event EvFetch w))
         | (rate, None) \<Rightarrow>
             (let selected =
                (case select_case env of
                   TimerFired \<Rightarrow>
                     (case SaveExchangeRate env rate
                             (event (EvSelect TimerFired) (event EvFetch w)) of
                        Inl wp \<Rightarrow> Inl wp
                      | Inr (err, w1) \<Rightarrow>
                          Inr (if err \<noteq> None then log_Println LogSaved w1 else w1))
                 | CtxDone \<Rightarrow>
                     Inr (log_Println LogTimeout
                            (event (EvSelect CtxDone) (event EvFetch w))))
              in case selected of
                   Inl wp \<Rightarrow> wp\<lparr>panicked := True\<rparr>
                 | Inr w2 \<Rightarrow>
                     Encode (json_Marshal rate)
                       (WriteHeader 200
                          (Header_Set ''Content-Type'' ''application/json'' w2)))))"

section \<open>The local client: \<^verbatim>\<open>client/client.go\<close>\<close>

text \<open>
  What one run of the client meets: the results of its request to the service, of
  \<^verbatim>\<open>os.Create\<close> and of \<^verbatim>\<open>file.WriteString\<close>, which returns the number of bytes
  written with its error.
\<close>

record client_world =
  c_new_request_err :: "go_error option"
  c_do_err :: "go_error option"
  c_resp_status :: nat
  c_read_err :: "go_error option"
  c_resp_body :: "json option"
  create_err :: "go_error option"
  write_n :: nat
  write_err :: "go_error option"

text \<open>
  The lines printed on the error stream, by the statement that prints them. The first
  is printed with the \<^verbatim>\<open>err\<close> of the request, which is nil at the status check.
\<close>

datatype diagnostic =
    DiagRequest "go_error option"
  | DiagRead go_error
  | DiagParse go_error
  | DiagCreate go_error
  | DiagWrite go_error

text \<open>The process after the run: the files by name, the error stream, the exit code.\<close>

record process =
  files :: "string \<rightharpoonup> string"
  stderr :: "diagnostic list"
  exit_code :: nat

definition os_Exit1 :: "(string \<rightharpoonup> string) \<Rightarrow> diagnostic \<Rightarrow> process" where
  "os_Exit1 fs d = \<lparr>files = fs, stderr = [d], exit_code = 1\<rparr>"

text \<open>
  \<^verbatim>\<open>main\<close> of the client, from the files \<open>fs\<close> it finds. \<^verbatim>\<open>os.Create\<close> truncates
  the file or creates it empty; a failed \<^verbatim>\<open>WriteString\<close> leaves the bytes it wrote.
\<close>

definition client_main :: "client_world \<Rightarrow> (string \<rightharpoonup> string) \<Rightarrow> process" where
  "client_main env fs =
     (case c_new_request_err env of
        Some e \<Rightarrow> os_Exit1 fs (DiagRequest (Some e))
      | None \<Rightarrow>
          (let err = c_do_err env in
           if err \<noteq> None then os_Exit1 fs (DiagRequest err)
           else if c_resp_status env \<noteq> 200 then os_Exit1 fs (DiagRequest err)
           else
             (case c_read_err env of
                Some e \<Rightarrow> os_Exit1 fs (DiagRead e)
              | None \<Rightarrow>
                  (case json_Unmarshal (c_resp_body env) zero_rate of
                     (rate, Some e) \<Rightarrow> os_Exit1 fs (DiagParse e)
                   | (rate, None) \<Rightarrow>
                       (case create_err env of
                          Some e \<Rightarrow> os_Exit1 fs (DiagCreate e)
                        | None \<Rightarrow>
                            (let fs1 = fs(''cotacao.txt'' \<mapsto> []);
                                 line = ''Dolar: {'' @ Bid (USDBRL rate) @ ''}''
                             in case write_err env of
                                  Some e \<Rightarrow>
                                    os_Exit1 (fs1(''cotacao.txt'' \<mapsto> take (write_n env) line))
                                      (DiagWrite e)
                                | None \<Rightarrow>
                                    \<lparr>files = fs1(''cotacao.txt'' \<mapsto> line), stderr = [],
                                     exit_code = 0\<rparr>))))))"

section \<open>Concrete runs\<close>

text \<open>
  The quote of the specification's end-to-end scenario, the upstream body that carries
  it, and a \<^verbatim>\<open>ParseFloat\<close> that knows its two decimals (as rationals).
\<close>

definition quote_5_4321 :: USDToBRLRate where
  "quote_5_4321 =
     \<lparr>USDBRL = zero_USDBRL\<lparr>Code := ''USD'', Bid := ''5.4321'', Ask := ''5.4325'',
                            Timestamp := ''1700000000''\<rparr>\<rparr>"

definition body_5_4321 :: json where
  "body_5_4321 =
     JObject [(''USDBRL'', JObject [(''code'', JString ''USD''), (''bid'', JString ''5.4321''),
                (''ask'', JString ''5.4325''), (''timestamp'', JString ''1700000000'')])]"

definition ParseFloat_example :: "string \<Rightarrow> go_error + rat" where
  "ParseFloat_example s =
     (if s = ''5.4321'' then Inr (54321 / 10000)
      else if s = ''5.4325'' then Inr (54325 / 10000)
      else Inl ErrSyntax)"

text \<open>
  A request where everything succeeds: the upstream answers 200 with the body above,
  the timer wins the \<^verbatim>\<open>select\<close> and the database stores the record.
\<close>

definition world_ok :: "rat world" where
  "world_ok =
     \<lparr>new_request_err = None, do_err = None, resp_status = 200, read_err = None,
      resp_body = Some body_5_4321, select_case = TimerFired,
      strconv_ParseFloat = ParseFloat_example, db_Create = (\<lambda>r. None)\<rparr>"

text \<open>The same request when the upstream answers with status 503.\<close>

definition world_503 :: "rat world" where
  "world_503 = world_ok\<lparr>resp_status := 503\<rparr>"

text \<open>A run of the client against that service answer, every call succeeding.\<close>

definition client_ok :: client_world where
  "client_ok =
     \<lparr>c_new_request_err = None, c_do_err = None, c_resp_status = 200, c_read_err = None,
      c_resp_body = Some body_5_4321, create_err = None, write_n = 15, write_err = None\<rparr>"

text \<open>The record the service hands to the database for that quote.\<close>

definition record_5_4321 :: "rat USDToBRLRateDB" where
  "record_5_4321 =
     \<lparr>db_ID = 0, db_Code = ''USD'', db_Bid = 54321 / 10000, db_Ask = 54325 / 10000,
      db_Timestamp = 1700000000, db_CreatedAt = None\<rparr>"

text \<open>The same request when the database refuses the record.\<close>

definition world_store_error :: "rat world" where
  "world_store_error = world_ok\<lparr>db_Create := (\<lambda>r. Some ErrStore)\<rparr>"

text \<open>A quote whose bid is not a number.\<close>

definition quote_bad_bid :: USDToBRLRate where
  "quote_bad_bid = quote_5_4321\<lparr>USDBRL := (USDBRL quote_5_4321)\<lparr>Bid := ''abc''\<rparr>\<rparr>"

text \<open>
  For the client: the output file as an earlier run left it, a run whose write fails
  before any byte is written, and a run the service answers with status 503.
\<close>

definition fs_prior :: "string \<rightharpoonup> string" where
  "fs_prior = [''cotacao.txt'' \<mapsto> ''Dolar: {5.1000}'']"

definition client_write_fails :: client_world where
  "client_write_fails = client_ok\<lparr>write_n := 0, write_err := Some ErrFileWrite\<rparr>"

definition client_503 :: client_world where
  "client_503 = client_ok\<lparr>c_resp_status := 503\<rparr>"

section \<open>Observations\<close>

text \<open>
  The response a caller sees: the status code, the \<^verbatim>\<open>Content-Type\<close> header and the
  documents written to the body.
\<close>

definition response_of :: "'f conn \<Rightarrow> nat option \<times> string option \<times> json list" where
  "response_of w = (w_status w, w_header w ''Content-Type'', w_body w)"

text \<open>
  The events of the persistence step: the call of \<^verbatim>\<open>SaveExchangeRate\<close>, the call of
  \<^verbatim>\<open>db.Create\<close> and log lines. The fetch, the \<^verbatim>\<open>select\<close> and the writes to the
  response are not among them.
\<close>

definition persistence_event :: "'f event \<Rightarrow> bool" where
  "persistence_event e =
     (case e of EvSaveCall \<Rightarrow> True | EvCreate r \<Rightarrow> True | EvLog l \<Rightarrow> True | _ \<Rightarrow> False)"

section \<open>Proof support\<close>

lemmas conn_ops =
  event_def log_Println_def Header_Set_def WriteHeader_def Encode_def new_conn_def

lemma GetExchangeRate_ok_iff:
  "GetExchangeRate env = (Some q, None) \<longleftrightarrow>
     new_request_err env = None \<and> do_err env = None \<and> resp_status env = 200 \<and>
     read_err env = None \<and> json_Unmarshal (resp_body env) zero_rate = (q, None)"
  by (auto simp: GetExchangeRate_def Let_def split: option.splits prod.splits)

lemma GetExchangeRate_error_no_quote:
  "GetExchangeRate env = (p, Some e) \<Longrightarrow> p = None"
  by (auto simp: GetExchangeRate_def Let_def split: option.splits prod.splits if_splits)

lemma GetExchangeRate_bad_status:
  "new_request_err env = None \<Longrightarrow> do_err env = None \<Longrightarrow> resp_status env \<noteq> 200 \<Longrightarrow>
   GetExchangeRate env = (None, None)"
  by (simp add: GetExchangeRate_def)

lemma GetExchangeRate_frame:
  "GetExchangeRate (env\<lparr>select_case := c, strconv_ParseFloat := pf, db_Create := store\<rparr>) =
   GetExchangeRate env"
  by (simp add: GetExchangeRate_def Let_def split: option.split)

lemma find_field_exact:
  "find_field USDBRL_tags ''code'' = Some ''code''"
  "find_field USDBRL_tags ''codein'' = Some ''codein''"
  "find_field USDBRL_tags ''name'' = Some ''name''"
  "find_field USDBRL_tags ''high'' = Some ''high''"
  "find_field USDBRL_tags ''low'' = Some ''low''"
  "find_field USDBRL_tags ''varBid'' = Some ''varBid''"
  "find_field USDBRL_tags ''pctChange'' = Some ''pctChange''"
  "find_field USDBRL_tags ''bid'' = Some ''bid''"
  "find_field USDBRL_tags ''ask'' = Some ''ask''"
  "find_field USDBRL_tags ''timestamp'' = Some ''timestamp''"
  "find_field USDBRL_tags ''create_date'' = Some ''create_date''"
  "find_field [''USDBRL''] ''USDBRL'' = Some ''USDBRL''"
  by (simp_all add: find_field_def USDBRL_tags_def)

lemma json_Unmarshal_body_5_4321:
  "json_Unmarshal (Some body_5_4321) zero_rate = (quote_5_4321, None)"
  by (simp add: json_Unmarshal_def body_5_4321_def find_field_exact unmarshal_USDBRL_def
      set_tagged_def zero_rate_def quote_5_4321_def zero_USDBRL_def)

lemma GetExchangeRate_world_ok: "GetExchangeRate world_ok = (Some quote_5_4321, None)"
  by (simp add: GetExchangeRate_ok_iff world_ok_def json_Unmarshal_body_5_4321)

lemma GetExchangeRate_world_503: "GetExchangeRate world_503 = (None, None)"
  by (rule GetExchangeRate_bad_status) (simp_all add: world_503_def world_ok_def)

lemma ParseInt_1700000000: "ParseInt ''1700000000'' = (1700000000, None)"
  by (simp add: ParseInt_def ParseUint_def maxUint64_def Let_def)

lemma ParseInt_abc: "ParseInt ''abc'' = (0, Some ErrSyntax)"
  by (simp add: ParseInt_def ParseUint_def maxUint64_def Let_def)

text \<open>The edges of \<^verbatim>\<open>ParseInt\<close>: the sign, the two ends of \<^verbatim>\<open>int64\<close>, bytes that are no digits.\<close>

lemma ParseInt_edges:
  "ParseInt [] = (0, Some ErrSyntax)"
  "ParseInt ''-'' = (0, Some ErrSyntax)"
  "ParseInt ''+12'' = (12, None)"
  "ParseInt ''1_0'' = (0, Some ErrSyntax)"
  "ParseInt ''1.5'' = (0, Some ErrSyntax)"
  "ParseInt ''9223372036854775807'' = (9223372036854775807, None)"
  "ParseInt ''9223372036854775808'' = (9223372036854775807, Some ErrRange)"
  "ParseInt ''-9223372036854775808'' = (- 9223372036854775808, None)"
  "ParseInt ''-9223372036854775809'' = (- 9223372036854775808, Some ErrRange)"
  "ParseInt ''99999999999999999999x'' = (9223372036854775807, Some ErrRange)"
  by (simp_all add: ParseInt_def ParseUint_def maxUint64_def Let_def)

text \<open>Keys are matched by exact name, then by folded name; other keys are skipped.\<close>

lemma find_field_folded:
  "find_field USDBRL_tags ''VARBID'' = Some ''varBid''"
  "find_field USDBRL_tags ''Create_Date'' = Some ''create_date''"
  "find_field USDBRL_tags [CHR ''a'', char_of (197 :: nat), char_of (191 :: nat), CHR ''k''] =
     Some ''ask''"
  "find_field USDBRL_tags ''bid2'' = None"
  "find_field [''USDBRL''] ''usdbrl'' = Some ''USDBRL''"
  by code_simp+

text \<open>
  Bodies that are valid JSON but not the expected object: \<^verbatim>\<open>null\<close> decodes to the
  zero quote without error, a number where a string is expected is an error.
\<close>

lemma json_Unmarshal_other_bodies:
  "json_Unmarshal (Some JNull) zero_rate = (zero_rate, None)"
  "json_Unmarshal None zero_rate = (zero_rate, Some ErrJSONSyntax)"
  "json_Unmarshal (Some (JArray [])) zero_rate = (zero_rate, Some ErrUnmarshalType)"
  by (simp_all add: json_Unmarshal_def)

lemma json_Unmarshal_number_for_string:
  "snd (json_Unmarshal (Some (JObject [(''USDBRL'', JObject [(''bid'', JNumber ''5.4321'')])]))
          zero_rate) = Some ErrUnmarshalType"
  by code_simp

lemma json_Unmarshal_unknown_key:
  "json_Unmarshal (Some (JObject [(''EURBRL'', JObject [(''bid'', JString ''6.1'')])])) zero_rate =
     (zero_rate, None)"
  by code_simp

lemma unmarshal_marshal_USDBRL:
  "unmarshal_USDBRL (marshal_USDBRL r) (r0, None) = (r, None)"
  by (cases r, cases r0)
     (simp add: unmarshal_USDBRL_def marshal_USDBRL_def find_field_exact set_tagged_def)

lemma json_Unmarshal_Marshal:
  "json_Unmarshal (Some (json_Marshal (Some q))) rate0 = (q, None)"
  by (cases q, cases rate0)
     (simp add: json_Unmarshal_def json_Marshal_def find_field_exact unmarshal_marshal_USDBRL)

text \<open>What \<^verbatim>\<open>SaveExchangeRate\<close> does with a quote, written out.\<close>

lemma SaveExchangeRate_Some:
  "SaveExchangeRate env (Some q) w =
     (let bid = (case strconv_ParseFloat env (Bid (USDBRL q)) of Inl e \<Rightarrow> 0 | Inr f \<Rightarrow> f);
          ask = (case strconv_ParseFloat env (Ask (USDBRL q)) of Inl e \<Rightarrow> 0 | Inr f \<Rightarrow> f);
          ts = (case ParseInt (Timestamp (USDBRL q)) of (i, Some e) \<Rightarrow> 0 | (i, None) \<Rightarrow> i);
          rateDB = \<lparr>db_ID = 0, db_Code = Code (USDBRL q), db_Bid = bid, db_Ask = ask,
                    db_Timestamp = ts, db_CreatedAt = None\<rparr>
      in Inr (db_Create env rateDB,
           w\<lparr>trace := trace w @ [EvSaveCall]
              @ ((case strconv_ParseFloat env (Bid (USDBRL q)) of
                    Inl e \<Rightarrow> [EvLog (LogParseFloat (Bid (USDBRL q)) e)] | Inr f \<Rightarrow> [])
                 @ (case strconv_ParseFloat env (Ask (USDBRL q)) of
                      Inl e \<Rightarrow> [EvLog (LogParseFloat (Ask (USDBRL q)) e)] | Inr f \<Rightarrow> [])
                 @ (case ParseInt (Timestamp (USDBRL q)) of
                      (i, Some e) \<Rightarrow> [EvLog (LogParseInt (Timestamp (USDBRL q)) e)]
                    | (i, None) \<Rightarrow> []))
              @ [EvCreate rateDB]\<rparr>))"
  by (simp add: SaveExchangeRate_def parseFloat_def parseTimestamp_def event_def
      log_Println_def Let_def split: sum.splits prod.splits option.splits)

lemma SaveExchangeRate_shape:
  "\<exists>r tr. SaveExchangeRate env (Some q) w =
            Inr (db_Create env r, w\<lparr>trace := trace w @ [EvSaveCall] @ tr @ [EvCreate r]\<rparr>) \<and>
          list_all persistence_event tr \<and> EvLog LogTimeout \<notin> set tr \<and>
          EvLog LogSaved \<notin> set tr"
  unfolding SaveExchangeRate_Some Let_def
  apply (intro exI conjI)
     apply (rule refl)
    apply (simp_all add: persistence_event_def split: sum.split prod.split option.split)
  done

lemma handler_fetch_ok_timer:
  assumes "GetExchangeRate env = (Some q, None)" and "select_case env = TimerFired"
  shows "\<exists>r tr. GetExchangeRateHandler env ''/cotacao'' new_conn =
           \<lparr>w_header = [''Content-Type'' \<mapsto> ''application/json''], w_status = Some 200,
            w_body = [json_Marshal (Some q)],
            trace = [EvFetch, EvSelect TimerFired, EvSaveCall] @ tr @ [EvCreate r] @
                    (if db_Create env r \<noteq> None then [EvLog LogSaved] else []) @
                    [EvHeaderSet ''Content-Type'' ''application/json'', EvWriteHeader 200,
                     EvEncode (json_Marshal (Some q))],
            panicked = False\<rparr> \<and>
          list_all persistence_event tr \<and> EvLog LogTimeout \<notin> set tr \<and>
          EvLog LogSaved \<notin> set tr"
proof -
  obtain r tr where
    save: "SaveExchangeRate env (Some q) (event (EvSelect TimerFired) (event EvFetch new_conn)) =
             Inr (db_Create env r,
                  (event (EvSelect TimerFired) (event EvFetch new_conn))
                    \<lparr>trace := trace (event (EvSelect TimerFired) (event EvFetch new_conn))
                              @ [EvSaveCall] @ tr @ [EvCreate r]\<rparr>)"
    and tr: "list_all persistence_event tr" "EvLog LogTimeout \<notin> set tr" "EvLog LogSaved \<notin> set tr"
    using SaveExchangeRate_shape by blast
  have "GetExchangeRateHandler env ''/cotacao'' new_conn =
           \<lparr>w_header = [''Content-Type'' \<mapsto> ''application/json''], w_status = Some 200,
            w_body = [json_Marshal (Some q)],
            trace = [EvFetch, EvSelect TimerFired, EvSaveCall] @ tr @ [EvCreate r] @
                    (if db_Create env r \<noteq> None then [EvLog LogSaved] else []) @
                    [EvHeaderSet ''Content-Type'' ''application/json'', EvWriteHeader 200,
                     EvEncode (json_Marshal (Some q))],
            panicked = False\<rparr>"
    by (simp add: GetExchangeRateHandler_def assms save) (simp add: conn_ops)
  with tr show ?thesis by blast
qed

lemma handler_fetch_ok_ctx:
  assumes "GetExchangeRate env = (Some q, None)" and "select_case env = CtxDone"
  shows "GetExchangeRateHandler env ''/cotacao'' new_conn =
           \<lparr>w_header = [''Content-Type'' \<mapsto> ''application/json''], w_status = Some 200,
            w_body = [json_Marshal (Some q)],
            trace = [EvFetch, EvSelect CtxDone, EvLog LogTimeout,
                     EvHeaderSet ''Content-Type'' ''application/json'', EvWriteHeader 200,
                     EvEncode (json_Marshal (Some q))],
            panicked = False\<rparr>"
  by (simp add: GetExchangeRateHandler_def assms) (simp add: conn_ops)

lemma handler_fetch_error:
  assumes "GetExchangeRate env = (p, Some e)"
  shows "GetExchangeRateHandler env ''/cotacao'' new_conn =
           \<lparr>w_header = Map.empty, w_status = Some 500, w_body = [],
            trace = [EvFetch, EvLog (LogFetchError e), EvWriteHeader 500],
            panicked = False\<rparr>"
  by (simp add: GetExchangeRateHandler_def assms) (simp add: conn_ops)

lemma handler_other_path:
  "path \<noteq> ''/cotacao'' \<Longrightarrow>
   GetExchangeRateHandler env path new_conn =
     \<lparr>w_header = Map.empty, w_status = Some 404, w_body = [],
      trace = [EvWriteHeader 404], panicked = False\<rparr>"
  by (simp add: GetExchangeRateHandler_def conn_ops)

lemma handler_world_ok:
  "GetExchangeRateHandler world_ok ''/cotacao'' new_conn =
     \<lparr>w_header = [''Content-Type'' \<mapsto> ''application/json''], w_status = Some 200,
      w_body = [json_Marshal (Some quote_5_4321)],
      trace = [EvFetch, EvSelect TimerFired, EvSaveCall, EvCreate record_5_4321,
               EvHeaderSet ''Content-Type'' ''application/json'', EvWriteHeader 200,
               EvEncode (json_Marshal (Some quote_5_4321))],
      panicked = False\<rparr>"
  apply (simp add: GetExchangeRateHandler_def GetExchangeRate_world_ok)
  apply (simp add: world_ok_def SaveExchangeRate_def parseFloat_def parseTimestamp_def conn_ops
      quote_5_4321_def zero_USDBRL_def ParseFloat_example_def ParseInt_1700000000 Let_def
      record_5_4321_def)
  done

lemma handler_world_503:
  "GetExchangeRateHandler world_503 ''/cotacao'' new_conn =
     \<lparr>w_header = Map.empty, w_status = None, w_body = [],
      trace = [EvFetch, EvSelect TimerFired, EvSaveCall], panicked = True\<rparr>"
  apply (simp add: GetExchangeRateHandler_def GetExchangeRate_world_503)
  apply (simp add: world_503_def world_ok_def SaveExchangeRate_def conn_ops)
  done

lemma select_case_world_ok: "select_case world_ok = TimerFired"
  by (simp add: world_ok_def)

lemma handler_world_store_error:
  "GetExchangeRateHandler world_store_error ''/cotacao'' new_conn =
     \<lparr>w_header = [''Content-Type'' \<mapsto> ''application/json''], w_status = Some 200,
      w_body = [json_Marshal (Some quote_5_4321)],
      trace = [EvFetch, EvSelect TimerFired, EvSaveCall, EvCreate record_5_4321,
               EvLog LogSaved,
               EvHeaderSet ''Content-Type'' ''application/json'', EvWriteHeader 200,
               EvEncode (json_Marshal (Some quote_5_4321))],
      panicked = False\<rparr>"
proof -
  have "GetExchangeRate world_store_error = (Some quote_5_4321, None)"
    unfolding world_store_error_def
    using GetExchangeRate_frame
      [where env = world_ok and c = TimerFired and pf = ParseFloat_example
         and store = "\<lambda>r. Some ErrStore"]
    by (simp add: GetExchangeRate_world_ok) (simp add: world_ok_def)
  then show ?thesis
    apply (simp add: GetExchangeRateHandler_def)
    apply (simp add: world_store_error_def world_ok_def SaveExchangeRate_def parseFloat_def
        parseTimestamp_def conn_ops quote_5_4321_def zero_USDBRL_def ParseFloat_example_def
        ParseInt_1700000000 Let_def record_5_4321_def)
    done
qed

text \<open>The client exits with a code other than 0 exactly when one of its calls fails.\<close>

lemma client_exit_code_iff:
  "exit_code (client_main env fs) \<noteq> 0 \<longleftrightarrow>
     (c_new_request_err env \<noteq> None \<or> c_do_err env \<noteq> None \<or> c_resp_status env \<noteq> 200 \<or>
      c_read_err env \<noteq> None \<or> snd (json_Unmarshal (c_resp_body env) zero_rate) \<noteq> None \<or>
      create_err env \<noteq> None \<or> write_err env \<noteq> None)"
  by (auto simp: client_main_def os_Exit1_def Let_def split: option.splits prod.splits)

section \<open>The fetch and a status other than 200\<close>

text \<open>
  Claim C1. The claim: for every upstream response with a non-2xx status,
  \<^verbatim>\<open>GetExchangeRate\<close> returns an error and never a nil quote with a nil error. The code
  does not: the status check returns the \<^verbatim>\<open>err\<close> of \<^verbatim>\<open>Do\<close>, which is nil there.
  With an upstream that answers 503 the function returns the pair (nil, nil).
\<close>

theorem GetExchangeRate_status_503_nil_nil:
  "new_request_err world_503 = None \<and> do_err world_503 = None \<and>
   resp_status world_503 = 503 \<and> GetExchangeRate world_503 = (None, None)"
  by (simp add: GetExchangeRate_def world_503_def world_ok_def)

text \<open>
  Claim C2. The claim: \<^verbatim>\<open>SaveExchangeRate\<close> is called only when the fetch returned a
  decoded quote. After the 503 answer the fetch returned no quote, the timer case of the
  \<^verbatim>\<open>select\<close> is taken and \<^verbatim>\<open>SaveExchangeRate\<close> is called all the same.
  (When the fetch returns an error the handler does answer 500 with an empty body and
  calls nothing else: lemma \<open>handler_fetch_error\<close>.)
\<close>

theorem SaveExchangeRate_called_without_quote:
  "fst (GetExchangeRate world_503) = None \<and>
   EvSaveCall \<in> set (trace (GetExchangeRateHandler world_503 ''/cotacao'' new_conn))"
  by (simp add: GetExchangeRate_world_503 handler_world_503)

text \<open>
  Claim C3. The claim: a nil error from \<^verbatim>\<open>GetExchangeRate\<close> comes with a non-nil
  quote, so no dereference in the handler panics. After the 503 answer both are nil,
  \<^verbatim>\<open>SaveExchangeRate\<close> dereferences the nil pointer, the handler panics and nothing
  is written to the response.
\<close>

theorem handler_panics_on_nil_quote:
  "snd (GetExchangeRate world_503) = None \<and> fst (GetExchangeRate world_503) = None \<and>
   panicked (GetExchangeRateHandler world_503 ''/cotacao'' new_conn) \<and>
   response_of (GetExchangeRateHandler world_503 ''/cotacao'' new_conn) = (None, None, [])"
  by (simp add: GetExchangeRate_world_503 handler_world_503 response_of_def)

section \<open>The persistence step\<close>

text \<open>
  Claim C4. The claim: when the store call runs, the success line is logged whether the
  store call returns nil or an error. The code logs it under \<^verbatim>\<open>err != nil\<close>: when
  \<^verbatim>\<open>db.Create\<close> succeeds the trace has no success line, and when it fails the line
  is there.
\<close>

theorem success_line_only_on_store_error:
  "db_Create world_ok record_5_4321 = None \<and>
   trace (GetExchangeRateHandler world_ok ''/cotacao'' new_conn) =
     [EvFetch, EvSelect TimerFired, EvSaveCall, EvCreate record_5_4321,
      EvHeaderSet ''Content-Type'' ''application/json'', EvWriteHeader 200,
      EvEncode (json_Marshal (Some quote_5_4321))] \<and>
   EvLog LogSaved \<notin> set (trace (GetExchangeRateHandler world_ok ''/cotacao'' new_conn)) \<and>
   db_Create world_store_error record_5_4321 = Some ErrStore \<and>
   EvLog LogSaved \<in> set (trace (GetExchangeRateHandler world_store_error ''/cotacao'' new_conn))"
  by (simp add: handler_world_ok handler_world_store_error)
     (simp add: world_ok_def world_store_error_def)

text \<open>
  Claim C5. When the fetch returns a quote, the response is status 200 with content type
  \<^verbatim>\<open>application/json\<close> and the quote's JSON as its body, whichever case the
  \<^verbatim>\<open>select\<close> takes, whatever the parses of the fields give and whatever
  \<^verbatim>\<open>db.Create\<close> returns; and the handler does not panic.
\<close>

theorem response_unaffected_by_persistence:
  assumes "GetExchangeRate env = (Some q, None)"
  shows "response_of (GetExchangeRateHandler
            (env\<lparr>select_case := c, strconv_ParseFloat := pf, db_Create := store\<rparr>)
            ''/cotacao'' new_conn) =
           (Some 200, Some ''application/json'', [json_Marshal (Some q)]) \<and>
         \<not> panicked (GetExchangeRateHandler
            (env\<lparr>select_case := c, strconv_ParseFloat := pf, db_Create := store\<rparr>)
            ''/cotacao'' new_conn)"
proof -
  let ?env = "env\<lparr>select_case := c, strconv_ParseFloat := pf, db_Create := store\<rparr>"
  have fetch: "GetExchangeRate ?env = (Some q, None)"
    using assms by (simp only: GetExchangeRate_frame)
  show ?thesis
  proof (cases c)
    case TimerFired
    then have "select_case ?env = TimerFired" by simp
    from handler_fetch_ok_timer [OF fetch this] show ?thesis
      by (auto simp: response_of_def)
  next
    case CtxDone
    then have "select_case ?env = CtxDone" by simp
    from handler_fetch_ok_ctx [OF fetch this] show ?thesis
      by (simp add: response_of_def)
  qed
qed

theorem response_unaffected_by_persistence_witness:
  "GetExchangeRate world_ok = (Some quote_5_4321, None) \<and>
   response_of (GetExchangeRateHandler
      (world_ok\<lparr>select_case := CtxDone, strconv_ParseFloat := (\<lambda>s. Inl ErrSyntax),
                db_Create := (\<lambda>r. Some ErrStore)\<rparr>)
      ''/cotacao'' new_conn) =
     (Some 200, Some ''application/json'', [json_Marshal (Some quote_5_4321)])"
  using response_unaffected_by_persistence [OF GetExchangeRate_world_ok,
      where c = CtxDone and pf = "\<lambda>s. Inl ErrSyntax" and store = "\<lambda>r. Some ErrStore"]
  by (simp add: GetExchangeRate_world_ok)

text \<open>
  Claim C6. When the fetch returns a quote, the handler's events come in this order:
  the fetch, the one case the \<^verbatim>\<open>select\<close> takes, the events of the persistence step,
  and then the three writes of the response, whose body is the JSON of the fetched quote.
  The persistence step holds the call of \<^verbatim>\<open>SaveExchangeRate\<close> exactly when the timer
  case is taken and the timeout line exactly when \<^verbatim>\<open>ctx.Done()\<close> is, so exactly one
  of the two happens.
\<close>

theorem handler_order:
  assumes "GetExchangeRate env = (Some q, None)"
  shows "\<exists>mid. trace (GetExchangeRateHandler env ''/cotacao'' new_conn) =
            [EvFetch, EvSelect (select_case env)] @ mid @
            [EvHeaderSet ''Content-Type'' ''application/json'', EvWriteHeader 200,
             EvEncode (json_Marshal (Some q))] \<and>
          list_all persistence_event mid \<and>
          (EvSaveCall \<in> set mid) = (select_case env = TimerFired) \<and>
          (EvLog LogTimeout \<in> set mid) = (select_case env = CtxDone) \<and>
          (EvSaveCall \<in> set mid) \<noteq> (EvLog LogTimeout \<in> set mid)"
proof (cases "select_case env")
  case TimerFired
  from handler_fetch_ok_timer [OF assms TimerFired] obtain r tr where
    h: "trace (GetExchangeRateHandler env ''/cotacao'' new_conn) =
          [EvFetch, EvSelect TimerFired, EvSaveCall] @ tr @ [EvCreate r] @
          (if db_Create env r \<noteq> None then [EvLog LogSaved] else []) @
          [EvHeaderSet ''Content-Type'' ''application/json'', EvWriteHeader 200,
           EvEncode (json_Marshal (Some q))]"
    and tr: "list_all persistence_event tr" "EvLog LogTimeout \<notin> set tr"
    by (auto dest: arg_cong [where f = trace])
  let ?mid = "EvSaveCall # tr @ [EvCreate r] @
                (if db_Create env r \<noteq> None then [EvLog LogSaved] else [])"
  have "trace (GetExchangeRateHandler env ''/cotacao'' new_conn) =
          [EvFetch, EvSelect (select_case env)] @ ?mid @
          [EvHeaderSet ''Content-Type'' ''application/json'', EvWriteHeader 200,
           EvEncode (json_Marshal (Some q))]"
    using h TimerFired by simp
  moreover have "list_all persistence_event ?mid"
    using tr by (simp add: persistence_event_def)
  moreover have "EvSaveCall \<in> set ?mid" by simp
  moreover have "EvLog LogTimeout \<notin> set ?mid" using tr by simp
  ultimately show ?thesis using TimerFired
    by (intro exI [of _ ?mid]) simp
next
  case CtxDone
  from handler_fetch_ok_ctx [OF assms CtxDone]
  have "trace (GetExchangeRateHandler env ''/cotacao'' new_conn) =
          [EvFetch, EvSelect (select_case env)] @ [EvLog LogTimeout] @
          [EvHeaderSet ''Content-Type'' ''application/json'', EvWriteHeader 200,
           EvEncode (json_Marshal (Some q))]"
    using CtxDone by simp
  moreover have "list_all persistence_event [EvLog LogTimeout :: 'a event]"
    by (simp add: persistence_event_def)
  ultimately show ?thesis using CtxDone
    by (intro exI [of _ "[EvLog LogTimeout]"]) simp
qed

theorem handler_order_witness:
  "GetExchangeRate world_ok = (Some quote_5_4321, None) \<and>
   (\<exists>mid. trace (GetExchangeRateHandler world_ok ''/cotacao'' new_conn) =
            [EvFetch, EvSelect TimerFired] @ mid @
            [EvHeaderSet ''Content-Type'' ''application/json'', EvWriteHeader 200,
             EvEncode (json_Marshal (Some quote_5_4321))] \<and>
          list_all persistence_event mid \<and> EvSaveCall \<in> set mid \<and>
          EvLog LogTimeout \<notin> set mid)"
  using handler_order [OF GetExchangeRate_world_ok]
  by (auto simp: GetExchangeRate_world_ok select_case_world_ok)

text \<open>
  Claim C7. For every quote \<^verbatim>\<open>SaveExchangeRate\<close> returns without a panic and calls
  \<^verbatim>\<open>db.Create\<close> once, with a record that carries the quote's code and, field by
  field: the parsed bid, ask and timestamp where the string parses, and 0 together with
  a log line naming the string where it does not. The result of one field's parse
  decides that field only.
\<close>

theorem SaveExchangeRate_lenient:
  "\<exists>r tr. SaveExchangeRate env (Some q) w =
            Inr (db_Create env r, w\<lparr>trace := trace w @ [EvSaveCall] @ tr @ [EvCreate r]\<rparr>) \<and>
          db_Code r = Code (USDBRL q) \<and>
          (case strconv_ParseFloat env (Bid (USDBRL q)) of
             Inl e \<Rightarrow> db_Bid r = 0 \<and> EvLog (LogParseFloat (Bid (USDBRL q)) e) \<in> set tr
           | Inr f \<Rightarrow> db_Bid r = f) \<and>
          (case strconv_ParseFloat env (Ask (USDBRL q)) of
             Inl e \<Rightarrow> db_Ask r = 0 \<and> EvLog (LogParseFloat (Ask (USDBRL q)) e) \<in> set tr
           | Inr f \<Rightarrow> db_Ask r = f) \<and>
          (case ParseInt (Timestamp (USDBRL q)) of
             (i, Some e) \<Rightarrow>
               db_Timestamp r = 0 \<and> EvLog (LogParseInt (Timestamp (USDBRL q)) e) \<in> set tr
           | (i, None) \<Rightarrow> db_Timestamp r = i)"
  unfolding SaveExchangeRate_Some Let_def
  apply (intro exI conjI)
      apply (rule refl)
     apply (simp_all split: sum.split prod.split option.split)
  done

theorem SaveExchangeRate_lenient_witness:
  "\<exists>r tr. SaveExchangeRate world_ok (Some quote_bad_bid) new_conn =
            Inr (None, new_conn\<lparr>trace := [EvSaveCall] @ tr @ [EvCreate r]\<rparr>) \<and>
          db_Code r = ''USD'' \<and>
          db_Bid r = 0 \<and> EvLog (LogParseFloat ''abc'' ErrSyntax) \<in> set tr \<and>
          db_Ask r = 54325 / 10000 \<and> db_Timestamp r = 1700000000"
proof -
  have bid: "strconv_ParseFloat world_ok ''abc'' = Inl ErrSyntax"
    and ask: "strconv_ParseFloat world_ok ''5.4325'' = Inr (54325 / 10000)"
    and store: "\<And>r. db_Create world_ok r = None"
    by (simp_all add: world_ok_def ParseFloat_example_def)
  from SaveExchangeRate_lenient [of world_ok quote_bad_bid new_conn]
  show ?thesis
    by (simp add: quote_bad_bid_def quote_5_4321_def zero_USDBRL_def bid ask store
        ParseInt_1700000000 new_conn_def)
qed

section \<open>Decoding and encoding the quote\<close>

text \<open>
  Claim C8. When the upstream answers 200 with a body that \<^verbatim>\<open>json.Unmarshal\<close>
  decodes into a quote without error, the body of the response is the encoding of that
  quote: an object that holds each of the eleven strings of the decoded quote under its
  tag, unchanged, and that decodes to the same quote again.
\<close>

theorem decode_encode_round_trip:
  assumes "new_request_err env = None" and "do_err env = None" and "resp_status env = 200"
    and "read_err env = None" and "resp_body env = Some body"
    and "json_Unmarshal (Some body) zero_rate = (q, None)"
  shows "w_body (GetExchangeRateHandler env ''/cotacao'' new_conn) = [json_Marshal (Some q)] \<and>
         json_Marshal (Some q) =
           JObject [(''USDBRL'', JObject
             [(''code'', JString (Code (USDBRL q))), (''codein'', JString (Codein (USDBRL q))),
              (''name'', JString (Name (USDBRL q))), (''high'', JString (High (USDBRL q))),
              (''low'', JString (Low (USDBRL q))), (''varBid'', JString (VarBid (USDBRL q))),
              (''pctChange'', JString (PctChange (USDBRL q))), (''bid'', JString (Bid (USDBRL q))),
              (''ask'', JString (Ask (USDBRL q))), (''timestamp'', JString (Timestamp (USDBRL q))),
              (''create_date'', JString (CreateDate (USDBRL q)))])] \<and>
         json_Unmarshal (Some (json_Marshal (Some q))) zero_rate = (q, None)"
proof -
  have fetch: "GetExchangeRate env = (Some q, None)"
    using assms by (simp add: GetExchangeRate_ok_iff)
  have "w_body (GetExchangeRateHandler env ''/cotacao'' new_conn) = [json_Marshal (Some q)]"
  proof (cases "select_case env")
    case TimerFired
    from handler_fetch_ok_timer [OF fetch TimerFired] show ?thesis by auto
  next
    case CtxDone
    from handler_fetch_ok_ctx [OF fetch CtxDone] show ?thesis by simp
  qed
  moreover have "json_Unmarshal (Some (json_Marshal (Some q))) zero_rate = (q, None)"
    by (rule json_Unmarshal_Marshal)
  ultimately show ?thesis
    by (simp add: json_Marshal_def marshal_USDBRL_def)
qed

theorem decode_encode_round_trip_witness:
  "json_Unmarshal (Some body_5_4321) zero_rate = (quote_5_4321, None) \<and>
   w_body (GetExchangeRateHandler world_ok ''/cotacao'' new_conn) =
     [JObject [(''USDBRL'', JObject
        [(''code'', JString ''USD''), (''codein'', JString []), (''name'', JString []),
         (''high'', JString []), (''low'', JString []), (''varBid'', JString []),
         (''pctChange'', JString []), (''bid'', JString ''5.4321''),
         (''ask'', JString ''5.4325''), (''timestamp'', JString ''1700000000''),
         (''create_date'', JString [])])]] \<and>
   json_Unmarshal (Some (json_Marshal (Some quote_5_4321))) zero_rate = (quote_5_4321, None)"
proof -
  have env: "new_request_err world_ok = None" "do_err world_ok = None"
    "resp_status world_ok = 200" "read_err world_ok = None"
    "resp_body world_ok = Some body_5_4321"
    by (simp_all add: world_ok_def)
  from decode_encode_round_trip [OF env json_Unmarshal_body_5_4321]
  show ?thesis
    by (simp add: json_Unmarshal_body_5_4321 quote_5_4321_def zero_USDBRL_def
        json_Marshal_def marshal_USDBRL_def)
qed

section \<open>The local client\<close>

text \<open>
  Claim C9. When the request succeeds with status 200, the body is read and decodes
  into a quote, and the file is created and written without error, the client leaves
  \<^verbatim>\<open>cotacao.txt\<close> holding exactly \<^verbatim>\<open>Dolar: {<bid>}\<close> for the bid string of the quote,
  whatever the file held before, prints nothing on the error stream and exits with
  code 0.
\<close>

theorem client_success_writes_bid:
  assumes "c_new_request_err env = None" and "c_do_err env = None"
    and "c_resp_status env = 200" and "c_read_err env = None"
    and "json_Unmarshal (c_resp_body env) zero_rate = (q, None)"
    and "create_err env = None" and "write_err env = None"
  shows "client_main env fs =
           \<lparr>files = fs(''cotacao.txt'' \<mapsto> ''Dolar: {'' @ Bid (USDBRL q) @ ''}''),
            stderr = [], exit_code = 0\<rparr>"
  using assms by (simp add: client_main_def)

theorem client_success_writes_bid_witness:
  "json_Unmarshal (c_resp_body client_ok) zero_rate = (quote_5_4321, None) \<and>
   fs_prior ''cotacao.txt'' = Some ''Dolar: {5.1000}'' \<and>
   files (client_main client_ok fs_prior) ''cotacao.txt'' = Some ''Dolar: {5.4321}'' \<and>
   stderr (client_main client_ok fs_prior) = [] \<and>
   exit_code (client_main client_ok fs_prior) = 0"
proof -
  have env: "c_new_request_err client_ok = None" "c_do_err client_ok = None"
    "c_resp_status client_ok = 200" "c_read_err client_ok = None"
    by (simp_all add: client_ok_def)
  have body: "json_Unmarshal (c_resp_body client_ok) zero_rate = (quote_5_4321, None)"
    by (simp add: client_ok_def json_Unmarshal_body_5_4321)
  have io: "create_err client_ok = None" "write_err client_ok = None"
    by (simp_all add: client_ok_def)
  from client_success_writes_bid [OF env body io, of fs_prior] body
  show ?thesis
    by (simp add: fs_prior_def quote_5_4321_def zero_USDBRL_def)
qed

text \<open>
  Claim C10, as stated, fails: a failing run is said to leave the output file as the
  last successful run left it. When \<^verbatim>\<open>WriteString\<close> fails, \<^verbatim>\<open>os.Create\<close> has
  already truncated the file: the run below exits with code 1 and the earlier content
  \<^verbatim>\<open>Dolar: {5.1000}\<close> is gone.
\<close>

theorem client_write_failure_loses_file_counterexample:
  "exit_code (client_main client_write_fails fs_prior) = 1 \<and>
   stderr (client_main client_write_fails fs_prior) = [DiagWrite ErrFileWrite] \<and>
   fs_prior ''cotacao.txt'' = Some ''Dolar: {5.1000}'' \<and>
   files (client_main client_write_fails fs_prior) ''cotacao.txt'' = Some [] \<and>
   files (client_main client_write_fails fs_prior) \<noteq> fs_prior"
proof -
  have run: "client_main client_write_fails fs_prior =
      \<lparr>files = fs_prior(''cotacao.txt'' \<mapsto> []), stderr = [DiagWrite ErrFileWrite],
       exit_code = 1\<rparr>"
    by (simp add: client_main_def client_write_fails_def client_ok_def
        json_Unmarshal_body_5_4321 os_Exit1_def)
  have prior: "fs_prior ''cotacao.txt'' = Some ''Dolar: {5.1000}''"
    by (simp add: fs_prior_def)
  have "(fs_prior(''cotacao.txt'' \<mapsto> [])) ''cotacao.txt'' \<noteq> fs_prior ''cotacao.txt''"
    by (simp add: fs_prior_def)
  then have "fs_prior(''cotacao.txt'' \<mapsto> []) \<noteq> fs_prior"
    by (metis)
  with run prior show ?thesis by simp
qed

text \<open>
  Claim C10, amended. Whenever one of the client's calls fails (the creation of the
  request, the request itself by transport error or timeout, a status other than 200,
  the read of the body, the decoding, the creation of the file or the write), the run
  exits with code 1 and prints exactly one diagnostic. When a call before the write
  failed, no file has changed. When only the write failed, the diagnostic is the one of
  the write and \<^verbatim>\<open>cotacao.txt\<close> holds only the bytes written before the error.
\<close>

theorem client_failure_by_cause:
  assumes "c_new_request_err env \<noteq> None \<or> c_do_err env \<noteq> None \<or>
           c_resp_status env \<noteq> 200 \<or> c_read_err env \<noteq> None \<or>
           snd (json_Unmarshal (c_resp_body env) zero_rate) \<noteq> None \<or>
           create_err env \<noteq> None \<or> write_err env \<noteq> None"
  shows "exit_code (client_main env fs) = 1 \<and>
         (\<exists>d. stderr (client_main env fs) = [d]) \<and>
         (if c_new_request_err env \<noteq> None \<or> c_do_err env \<noteq> None \<or>
             c_resp_status env \<noteq> 200 \<or> c_read_err env \<noteq> None \<or>
             snd (json_Unmarshal (c_resp_body env) zero_rate) \<noteq> None \<or>
             create_err env \<noteq> None
          then files (client_main env fs) = fs \<and>
               (\<forall>e. stderr (client_main env fs) \<noteq> [DiagWrite e])
          else \<exists>e. write_err env = Some e \<and>
                 stderr (client_main env fs) = [DiagWrite e] \<and>
                 files (client_main env fs) =
                   fs(''cotacao.txt'' \<mapsto>
                        take (write_n env)
                          (''Dolar: {'' @
                           Bid (USDBRL (fst (json_Unmarshal (c_resp_body env) zero_rate))) @
                           ''}'')))"
  using assms
  by (auto simp: client_main_def os_Exit1_def Let_def split: option.splits prod.splits)

theorem client_failure_by_cause_witness:
  "c_resp_status client_503 = 503 \<and>
   exit_code (client_main client_503 fs_prior) = 1 \<and>
   stderr (client_main client_503 fs_prior) = [DiagRequest None] \<and>
   files (client_main client_503 fs_prior) = fs_prior \<and>
   write_err client_write_fails = Some ErrFileWrite \<and>
   exit_code (client_main client_write_fails fs_prior) = 1 \<and>
   stderr (client_main client_write_fails fs_prior) = [DiagWrite ErrFileWrite] \<and>
   files (client_main client_write_fails fs_prior) = fs_prior(''cotacao.txt'' \<mapsto> [])"
proof -
  have status: "c_resp_status client_503 = 503"
    by (simp add: client_503_def client_ok_def)
  then have cause1:
    "c_new_request_err client_503 \<noteq> None \<or> c_do_err client_503 \<noteq> None \<or>
     c_resp_status client_503 \<noteq> 200 \<or> c_read_err client_503 \<noteq> None \<or>
     snd (json_Unmarshal (c_resp_body client_503) zero_rate) \<noteq> None \<or>
     create_err client_503 \<noteq> None \<or> write_err client_503 \<noteq> None"
    by simp
  have werr: "write_err client_write_fails = Some ErrFileWrite"
    by (simp add: client_write_fails_def)
  then have cause2:
    "c_new_request_err client_write_fails \<noteq> None \<or> c_do_err client_write_fails \<noteq> None \<or>
     c_resp_status client_write_fails \<noteq> 200 \<or> c_read_err client_write_fails \<noteq> None \<or>
     snd (json_Unmarshal (c_resp_body client_write_fails) zero_rate) \<noteq> None \<or>
     create_err client_write_fails \<noteq> None \<or> write_err client_write_fails \<noteq> None"
    by simp
  have run1: "stderr (client_main client_503 fs_prior) = [DiagRequest None]"
    by (simp add: client_main_def client_503_def client_ok_def os_Exit1_def)
  have pre: "c_new_request_err client_write_fails = None" "c_do_err client_write_fails = None"
    "c_resp_status client_write_fails = 200" "c_read_err client_write_fails = None"
    "json_Unmarshal (c_resp_body client_write_fails) zero_rate = (quote_5_4321, None)"
    "create_err client_write_fails = None" "write_n client_write_fails = 0"
    by (simp_all add: client_write_fails_def client_ok_def json_Unmarshal_body_5_4321)
  from client_failure_by_cause [OF cause1, of fs_prior]
    client_failure_by_cause [OF cause2, of fs_prior]
  show ?thesis
    by (simp add: status werr run1 pre)
qed

end
